theory Spec2Isabelle
  imports Main
begin

section \<open>Python strings\<close>

text \<open>
  A Python \<open>str\<close> is modelled as a \<open>string\<close> whose characters are the code points
  below 256 (ASCII and Latin-1), one \<open>char\<close> per code point, so that \<open>prompt[:50]\<close> is
  \<open>take 50 prompt\<close>. The operations below are the ones the backend applies to its texts:
  \<open>str.lower\<close>, \<open>str.strip\<close>, \<open>str.startswith\<close>, the operator \<open>in\<close>,
  \<open>str.split('\n')\<close> and \<open>'\n'.join\<close>.
\<close>

definition is_upper :: "char \<Rightarrow> bool" where
  "is_upper c =
     (let n = (of_char c :: nat)
      in (65 \<le> n \<and> n \<le> 90) \<or> (192 \<le> n \<and> n \<le> 222 \<and> n \<noteq> 215))"

definition lower_char :: "char \<Rightarrow> char" where
  "lower_char c = (if is_upper c then char_of ((of_char c :: nat) + 32) else c)"

definition lower :: "string \<Rightarrow> string" where
  "lower s = map lower_char s"

definition is_space :: "char \<Rightarrow> bool" where
  "is_space c =
     (let n = (of_char c :: nat)
      in (9 \<le> n \<and> n \<le> 13) \<or> (28 \<le> n \<and> n \<le> 32) \<or> n = 133 \<or> n = 160)"

definition strip :: "string \<Rightarrow> string" where
  "strip s = rev (dropWhile is_space (rev (dropWhile is_space s)))"

definition startswith :: "string \<Rightarrow> string \<Rightarrow> bool" where
  "startswith s p = (take (length p) s = p)"

primrec py_in :: "string \<Rightarrow> string \<Rightarrow> bool" where
  "py_in sub [] = (sub = [])"
| "py_in sub (c # cs) = (startswith (c # cs) sub \<or> py_in sub cs)"

fun split_lines :: "string \<Rightarrow> string list" where
  "split_lines [] = [[]]"
| "split_lines (c # cs) =
     (if c = CHR 0x0A then [] # split_lines cs
      else (case split_lines cs of
              [] \<Rightarrow> [[c]]
            | l # ls \<Rightarrow> (c # l) # ls))"

fun join_lines :: "string list \<Rightarrow> string" where
  "join_lines [] = []"
| "join_lines [l] = l"
| "join_lines (l # ls) = l @ CHR 0x0A # join_lines ls"

section \<open>Exceptions\<close>

text \<open>
  The exceptions that the backend can raise or catch, as values. \<open>str_of\<close> is Python's
  \<open>str(e)\<close>: the message for most classes, the quoted key for a \<open>KeyError\<close>.
\<close>

datatype exn =
    KeyError string
  | AttributeError string string
  | TypeError string
  | ValueError string
  | RecursionError string
  | ConnectionClosed string
  | Exception string

definition quoted :: "string \<Rightarrow> string" where
  "quoted s = CHR 0x27 # s @ [CHR 0x27]"

fun str_of :: "exn \<Rightarrow> string" where
  "str_of (KeyError k) = quoted k"
| "str_of (AttributeError ty attr) =
     quoted ty @ '' object has no attribute '' @ quoted attr"
| "str_of (TypeError m) = m"
| "str_of (ValueError m) = m"
| "str_of (RecursionError m) = m"
| "str_of (ConnectionClosed m) = m"
| "str_of (Exception m) = m"

section \<open>The values of a request\<close>

text \<open>
  What \<open>json.loads\<close> returns, and what an envelope holds: \<open>None\<close>, a bool, an int, a
  float (given by its \<open>repr\<close>), a str, a list, or a dict with str keys. Nothing checks
  the fields of a request against the annotations of \<open>process_request\<close>, so each of its
  arguments is such a value. \<open>type_name\<close> is the name of the Python type, as the
  messages of \<open>AttributeError\<close> and \<open>TypeError\<close> print it; lists and dicts cannot be
  hashed, so they cannot be looked up in a dict.
\<close>

datatype jval =
    JNull
  | JBool bool
  | JInt int
  | JFloat string
  | JStr string
  | JList "jval list"
  | JDict "(string \<times> jval) list"

type_synonym envelope = "(string \<times> jval) list"

fun type_name :: "jval \<Rightarrow> string" where
  "type_name JNull = ''NoneType''"
| "type_name (JBool b) = ''bool''"
| "type_name (JInt i) = ''int''"
| "type_name (JFloat r) = ''float''"
| "type_name (JStr s) = ''str''"
| "type_name (JList xs) = ''list''"
| "type_name (JDict d) = ''dict''"

fun hashable :: "jval \<Rightarrow> bool" where
  "hashable (JList xs) = False"
| "hashable (JDict d) = False"
| "hashable v = True"

section \<open>Dictionaries\<close>

text \<open>
  A dict literal is an association list in the order of the source. \<open>dict_index\<close> is
  \<open>d[k]\<close>, which raises \<open>KeyError\<close>; \<open>dict_get\<close> is \<open>d.get(k, default)\<close>, which does
  not.
\<close>

definition dict_index :: "(string \<times> 'a) list \<Rightarrow> string \<Rightarrow> exn + 'a" where
  "dict_index d k = (case map_of d k of None \<Rightarrow> Inl (KeyError k) | Some v \<Rightarrow> Inr v)"

definition dict_get :: "(string \<times> 'a) list \<Rightarrow> string \<Rightarrow> 'a \<Rightarrow> 'a" where
  "dict_get d k dflt = (case map_of d k of None \<Rightarrow> dflt | Some v \<Rightarrow> v)"

section \<open>Personas and prompts (ai\_engine.py)\<close>

record persona_config =
  system_prompt :: string
  style :: string

definition teacher :: persona_config where
  "teacher = \<lparr>system_prompt = ''You are a patient, educational programming teacher. Explain concepts clearly with examples and encourage learning. Use simple language and provide step-by-step explanations.'',
     style = ''educational''\<rparr>"

definition hacker :: persona_config where
  "hacker = \<lparr>system_prompt = ''You are a skilled, efficient hacker-style programmer. Give concise, advanced solutions. Focus on performance, clever tricks, and cutting-edge techniques. Be direct and technical.'',
     style = ''advanced''\<rparr>"

definition reviewer :: persona_config where
  "reviewer = \<lparr>system_prompt = ''You are a thorough code reviewer. Analyze code quality, suggest improvements, point out potential issues, and recommend best practices. Be constructive and detailed.'',
     style = ''analytical''\<rparr>"

definition personas :: "(string \<times> persona_config) list" where
  "personas = [(''teacher'', teacher), (''hacker'', hacker), (''reviewer'', reviewer)]"

text \<open>
  Each of the five operations starts with
  \<open>persona_config = self.personas.get(persona, self.personas[d])\<close>, where the default
  key \<open>d\<close> is written in the operation: Python evaluates the argument
  \<open>self.personas[d]\<close> first (a \<open>KeyError\<close> if \<open>d\<close> were missing), then \<open>get\<close>.
  The persona is whatever value the request holds: \<open>get\<close> raises a \<open>TypeError\<close> on a
  list or a dict, finds a str among the keys or not, and finds no other value, since
  the keys are strs.
\<close>

definition persona_lookup :: "jval \<Rightarrow> string \<Rightarrow> exn + persona_config" where
  "persona_lookup persona d =
     (case dict_index personas d of
        Inl e \<Rightarrow> Inl e
      | Inr dflt \<Rightarrow>
          (if \<not> hashable persona
             then Inl (TypeError (''unhashable type: '' @ quoted (type_name persona)))
           else (case persona of
                   JStr s \<Rightarrow> Inr (dict_get personas s dflt)
                 | _ \<Rightarrow> Inr dflt)))"

definition explain_persona :: "jval \<Rightarrow> exn + persona_config" where
  "explain_persona persona = persona_lookup persona ''teacher''"

definition translate_persona :: "jval \<Rightarrow> exn + persona_config" where
  "translate_persona persona = persona_lookup persona ''teacher''"

definition optimize_persona :: "jval \<Rightarrow> exn + persona_config" where
  "optimize_persona persona = persona_lookup persona ''hacker''"

definition chat_persona :: "jval \<Rightarrow> exn + persona_config" where
  "chat_persona persona = persona_lookup persona ''teacher''"

definition fix_error_persona :: "jval \<Rightarrow> exn + persona_config" where
  "fix_error_persona persona = persona_lookup persona ''reviewer''"

text \<open>
  The f-strings of the five operations, with the persona already looked up and each
  operand already formatted as text.
\<close>

definition explain_prompt :: "persona_config \<Rightarrow> string \<Rightarrow> string" where
  "explain_prompt pc code =
     ''\<newline>'' @ system_prompt pc
     @ ''\<newline>\<newline>Please explain the following code:\<newline>\<newline>```\<newline>'' @ code
     @ ''\<newline>```\<newline>\<newline>Explain what this code does, how it works, and any important concepts involved.\<newline>''"

definition translate_prompt :: "persona_config \<Rightarrow> string \<Rightarrow> string \<Rightarrow> string" where
  "translate_prompt pc code target_language =
     ''\<newline>'' @ system_prompt pc
     @ ''\<newline>\<newline>Please translate the following code to '' @ target_language
     @ '':\<newline>\<newline>```\<newline>'' @ code
     @ ''\<newline>```\<newline>\<newline>Provide the translated code and explain any important differences or considerations.\<newline>''"

definition optimize_prompt :: "persona_config \<Rightarrow> string \<Rightarrow> string" where
  "optimize_prompt pc code =
     ''\<newline>'' @ system_prompt pc
     @ ''\<newline>\<newline>Please optimize the following code for better performance, readability, and maintainability:\<newline>\<newline>```\<newline>'' @ code
     @ ''\<newline>```\<newline>\<newline>Provide the optimized version and explain what improvements were made.\<newline>''"

definition chat_prompt :: "persona_config \<Rightarrow> string \<Rightarrow> string" where
  "chat_prompt pc message =
     ''\<newline>'' @ system_prompt pc
     @ ''\<newline>\<newline>User message: '' @ message
     @ ''\<newline>\<newline>Please respond helpfully as a programming assistant.\<newline>''"

definition fix_error_prompt :: "persona_config \<Rightarrow> string \<Rightarrow> string \<Rightarrow> string" where
  "fix_error_prompt pc code error_message =
     ''\<newline>'' @ system_prompt pc
     @ ''\<newline>\<newline>The following code is producing an error:\<newline>\<newline>Code:\<newline>```\<newline>'' @ code
     @ ''\<newline>```\<newline>\<newline>Error message:\<newline>```\<newline>'' @ error_message
     @ ''\<newline>```\<newline>\<newline>Please analyze the error, explain what's wrong, and provide a corrected version of the code.\<newline>''"

section \<open>The canned guidance (generate\_fallback\_response)\<close>

definition fallback_explain :: string where
  "fallback_explain = ''I'm sorry, but I don't have access to AI services right now. \<newline>            \<newline>To enable AI features:\<newline>1. For online mode: Set OPENAI_API_KEY or GROQ_API_KEY environment variable\<newline>2. For offline mode: Place a GGML/GGUF model file in the models/ directory and ensure llama.cpp is available\<newline>\<newline>In the meantime, I can help you with basic code operations through the file explorer and editor.''"

definition fallback_translate :: string where
  "fallback_translate = ''I can't translate code without AI services, but here are some general tips:\<newline>\<newline>- Python to JavaScript: Focus on syntax differences (indentation vs braces, def vs function)\<newline>- JavaScript to Python: Watch out for variable scoping and type differences\<newline>- Java to Python: Consider Python's dynamic typing and simpler syntax\<newline>\<newline>Please set up AI services for full translation capabilities.''"

definition fallback_optimize :: string where
  "fallback_optimize = ''Without AI services, here are general optimization tips:\<newline>\<newline>- Remove unused variables and imports\<newline>- Use appropriate data structures (lists vs sets vs dicts)\<newline>- Avoid nested loops when possible\<newline>- Cache expensive operations\<newline>- Use list comprehensions for simple transformations\<newline>\<newline>Set up AI services for detailed, code-specific optimization suggestions.''"

definition fallback_generic :: string where
  "fallback_generic = ''I'm currently running in limited mode without AI services.\<newline>\<newline>To enable full AI capabilities:\<newline>1. Set OPENAI_API_KEY or GROQ_API_KEY environment variable for online mode\<newline>2. Set up llama.cpp with a local model for offline mode\<newline>\<newline>I can still help you with file operations, editing, and basic code management.''"

definition generate_fallback_response :: "string \<Rightarrow> string" where
  "generate_fallback_response prompt =
     (if py_in ''explain'' (lower prompt) then fallback_explain
      else if py_in ''translate'' (lower prompt) then fallback_translate
      else if py_in ''optimize'' (lower prompt) then fallback_optimize
      else fallback_generic)"

section \<open>The engine and its collaborators (ai\_engine.py)\<close>

text \<open>
  The fields of \<open>AIEngine\<close>. A key or path that is unset is \<open>None\<close>.
\<close>

record engine =
  online_mode_available :: bool
  offline_mode_available :: bool
  openai_api_key :: "string option"
  groq_api_key :: "string option"
  llama_model_path :: "string option"
  llama_executable :: "string option"

text \<open>Python's truth value of an optional string: \<open>None\<close> and \<open>''\<close> are false.\<close>

definition truthy :: "string option \<Rightarrow> bool" where
  "truthy k = (case k of None \<Rightarrow> False | Some s \<Rightarrow> s \<noteq> [])"

text \<open>
  \<open>initialize\<close> reads the two keys from the environment and runs
  \<open>setup_offline_mode\<close>. The environment and the outcome of the search for a model
  file and an executable are its inputs here. It returns the engine and its
  \<open>success\<close> flag.
\<close>

definition init_engine :: engine where
  "init_engine = \<lparr>online_mode_available = False, offline_mode_available = False,
     openai_api_key = None, groq_api_key = None,
     llama_model_path = None, llama_executable = None\<rparr>"

definition setup_offline_mode :: "string option \<Rightarrow> string option \<Rightarrow> engine \<Rightarrow> engine" where
  "setup_offline_mode found_model found_executable eng =
     (let eng1 = (case found_model of None \<Rightarrow> eng | Some m \<Rightarrow> eng\<lparr>llama_model_path := Some m\<rparr>);
          eng2 = (case found_executable of None \<Rightarrow> eng1 | Some x \<Rightarrow> eng1\<lparr>llama_executable := Some x\<rparr>)
      in if truthy (llama_model_path eng2) \<and> truthy (llama_executable eng2)
         then eng2\<lparr>offline_mode_available := True\<rparr> else eng2)"

definition initialize ::
  "string option \<Rightarrow> string option \<Rightarrow> string option \<Rightarrow> string option \<Rightarrow> engine \<Rightarrow> bool \<times> engine" where
  "initialize env_openai env_groq found_model found_executable eng =
     (let eng1 = eng\<lparr>openai_api_key := env_openai, groq_api_key := env_groq\<rparr>;
          online = truthy (openai_api_key eng1) \<or> truthy (groq_api_key eng1);
          eng2 = (if online then eng1\<lparr>online_mode_available := True\<rparr> else eng1);
          eng3 = setup_offline_mode found_model found_executable eng2
      in (online \<or> offline_mode_available eng3, eng3))"

text \<open>
  What the outside does when called, one outcome per call: a remote completion returns
  a text, or the client library is missing, or the call raises (network error, status
  that is not 2xx, timeout, unexpected shape of the answer); the temporary file is
  created under some name or its creation raises; the llama.cpp process completes with
  a return code, its stdout and its stderr, or exceeds the 60 seconds of
  \<open>subprocess.run\<close>, or cannot be started; \<open>websocket.send\<close> delivers an envelope
  or raises. \<open>builtin_str\<close> is the text that Python's \<open>str\<close> gives for a list or
  a dict; no property below depends on it.
\<close>

datatype api_outcome = Completion string | ImportError | Raised exn

datatype tempfile_outcome = Created string | CreateFailed exn

datatype process_outcome =
    Completed int string string
  | TimeoutExpired
  | RunFailed exn

record world =
  openai_completion :: "string \<Rightarrow> string \<Rightarrow> api_outcome"
  groq_completion :: "string \<Rightarrow> string \<Rightarrow> api_outcome"
  named_temporary_file :: tempfile_outcome
  subprocess_run :: "string list \<Rightarrow> process_outcome"
  now_isoformat :: string
  websocket_send :: "envelope \<Rightarrow> exn option"
  builtin_str :: "jval \<Rightarrow> string"

text \<open>
  How an f-string formats a value: a str as it is, \<open>None\<close> and the bools by their
  names, an int in decimal, a float by its \<open>repr\<close>, a list or a dict by \<open>str\<close>.
\<close>

function str_nat :: "nat \<Rightarrow> string" where
  "str_nat n =
     (if n < 10 then [char_of (48 + n)]
      else str_nat (n div 10) @ [char_of (48 + n mod 10)])"
  by pat_completeness auto
termination
  by (relation "measure id") auto

declare str_nat.simps [simp del]

definition str_int :: "int \<Rightarrow> string" where
  "str_int i = (if i < 0 then CHR ''-'' # str_nat (nat (- i)) else str_nat (nat i))"

definition py_str :: "world \<Rightarrow> jval \<Rightarrow> string" where
  "py_str w v =
     (case v of
        JStr s \<Rightarrow> s
      | JNull \<Rightarrow> ''None''
      | JBool b \<Rightarrow> (if b then ''True'' else ''False'')
      | JInt i \<Rightarrow> str_int i
      | JFloat r \<Rightarrow> r
      | _ \<Rightarrow> builtin_str w v)"

text \<open>
  The state that a request changes: the files on disk (path to content), and a log of
  the calls made to the backends, in order. The log is not a variable of the source; it
  records which backend the router reached.
\<close>

datatype call = OpenAICall string string | GroqCall string string | LlamaRun "string list"

record sys_state =
  files :: "string \<rightharpoonup> string"
  calls :: "call list"

definition log_call :: "call \<Rightarrow> sys_state \<Rightarrow> sys_state" where
  "log_call c st = st\<lparr>calls := calls st @ [c]\<rparr>"

definition call_openai_api :: "world \<Rightarrow> string \<Rightarrow> string \<Rightarrow> sys_state \<Rightarrow> (exn + string) \<times> sys_state" where
  "call_openai_api w key prompt st =
     (case openai_completion w key prompt of
        ImportError \<Rightarrow> (Inl (Exception ''OpenAI library not available''), st)
      | Raised e \<Rightarrow> (Inl e, log_call (OpenAICall key prompt) st)
      | Completion text \<Rightarrow> (Inr (strip text), log_call (OpenAICall key prompt) st))"

definition call_groq_api :: "world \<Rightarrow> string \<Rightarrow> string \<Rightarrow> sys_state \<Rightarrow> (exn + string) \<times> sys_state" where
  "call_groq_api w key prompt st =
     (case groq_completion w key prompt of
        ImportError \<Rightarrow> (Inl (Exception ''Requests library not available''), st)
      | Raised e \<Rightarrow> (Inl e, log_call (GroqCall key prompt) st)
      | Completion text \<Rightarrow> (Inr (strip text), log_call (GroqCall key prompt) st))"

subsection \<open>The local backend\<close>

text \<open>
  The loop that looks for the first line of the answer: \<open>response_start\<close> is 0 before
  the loop, and is set at the first line that is not blank and does not start with the
  first 50 characters of the prompt; then the loop breaks.
\<close>

definition answer_line :: "string \<Rightarrow> string \<Rightarrow> bool" where
  "answer_line prompt line = (strip line \<noteq> [] \<and> \<not> startswith line (take 50 prompt))"

fun find_response_start :: "string \<Rightarrow> (nat \<times> string) list \<Rightarrow> nat \<Rightarrow> nat" where
  "find_response_start prompt [] response_start = response_start"
| "find_response_start prompt ((i, line) # rest) response_start =
     (if answer_line prompt line then i
      else find_response_start prompt rest response_start)"

definition no_proper_response :: string where
  "no_proper_response = ''I apologize, but I couldn't generate a proper response.''"

definition clean_response :: "string \<Rightarrow> string \<Rightarrow> string" where
  "clean_response prompt stdout =
     (let response = strip stdout;
          lines = split_lines response;
          response_start = find_response_start prompt (enumerate 0 lines) 0;
          cleaned_response = strip (join_lines (drop response_start lines))
      in if cleaned_response \<noteq> [] then cleaned_response else no_proper_response)"

definition llama_cmd :: "string \<Rightarrow> string \<Rightarrow> string \<Rightarrow> string list" where
  "llama_cmd executable model prompt_file =
     [executable, ''-m'', model, ''-f'', prompt_file, ''-n'', ''500'', ''-t'', ''4'',
      ''--temp'', ''0.7'', ''--top-p'', ''0.9'', ''--repeat-penalty'', ''1.1'']"

definition request_timed_out :: string where
  "request_timed_out = ''Sorry, the request timed out. Please try again with a shorter prompt.''"

text \<open>
  \<open>generate_offline_response\<close>: the prompt is written to a temporary file that is
  kept on close (\<open>delete=False\<close>); the process runs; \<open>os.unlink\<close> is the statement
  after the run, inside the \<open>try\<close>; the two handlers return a text. A path that is
  \<open>None\<close> in the command makes \<open>subprocess.run\<close> raise a \<open>TypeError\<close>.
\<close>

definition generate_offline_response :: "engine \<Rightarrow> world \<Rightarrow> string \<Rightarrow> sys_state \<Rightarrow> string \<times> sys_state" where
  "generate_offline_response eng w prompt st =
     (case named_temporary_file w of
        CreateFailed e \<Rightarrow> (''Sorry, I encountered an error: '' @ str_of e, st)
      | Created prompt_file \<Rightarrow>
          (let st1 = st\<lparr>files := (files st)(prompt_file \<mapsto> prompt)\<rparr>
           in case (llama_executable eng, llama_model_path eng) of
                (Some executable, Some model) \<Rightarrow>
                  (let cmd = llama_cmd executable model prompt_file;
                       st2 = log_call (LlamaRun cmd) st1
                   in case subprocess_run w cmd of
                        TimeoutExpired \<Rightarrow> (request_timed_out, st2)
                      | RunFailed e \<Rightarrow> (''Sorry, I encountered an error: '' @ str_of e, st2)
                      | Completed returncode out err \<Rightarrow>
                          (let st3 = st2\<lparr>files := (files st2)(prompt_file := None)\<rparr>
                           in if returncode = 0 then (clean_response prompt out, st3)
                              else (''Sorry, there was an error processing your request: '' @ err, st3)))
              | _ \<Rightarrow>
                  (''Sorry, I encountered an error: ''
                     @ str_of (TypeError ''expected str, bytes or os.PathLike object, not NoneType''), st1)))"

subsection \<open>The remote backend and the router\<close>

text \<open>
  \<open>generate_online_response\<close> in two parts: \<open>remote_attempt\<close> is the body of its
  \<open>try\<close>, which calls the API of the first key that is set, OpenAI before Groq; the
  rest is its handler.
\<close>

definition remote_attempt :: "engine \<Rightarrow> world \<Rightarrow> string \<Rightarrow> sys_state \<Rightarrow> (exn + string) \<times> sys_state" where
  "remote_attempt eng w prompt st =
     (if truthy (openai_api_key eng)
        then call_openai_api w (case openai_api_key eng of Some k \<Rightarrow> k | None \<Rightarrow> []) prompt st
      else if truthy (groq_api_key eng)
        then call_groq_api w (case groq_api_key eng of Some k \<Rightarrow> k | None \<Rightarrow> []) prompt st
      else (Inl (Exception ''No online API keys available''), st))"

definition could_not_process :: "string \<Rightarrow> string" where
  "could_not_process m = ''Sorry, I couldn't process your request. Error: '' @ m"

definition generate_online_response :: "engine \<Rightarrow> world \<Rightarrow> string \<Rightarrow> sys_state \<Rightarrow> string \<times> sys_state" where
  "generate_online_response eng w prompt st =
     (let (r, st1) = remote_attempt eng w prompt st
      in case r of
           Inr text \<Rightarrow> (text, st1)
         | Inl e \<Rightarrow>
             (if offline_mode_available eng then generate_offline_response eng w prompt st1
              else (could_not_process (str_of e), st1)))"

text \<open>
  The mode is the value of the request: \<open>mode == 'online'\<close> holds of the str
  \<open>online\<close> and of no other value.
\<close>

definition generate_response :: "engine \<Rightarrow> world \<Rightarrow> string \<Rightarrow> jval \<Rightarrow> sys_state \<Rightarrow> string \<times> sys_state" where
  "generate_response eng w prompt mode st =
     (if mode = JStr ''online'' \<and> online_mode_available eng then generate_online_response eng w prompt st
      else if mode = JStr ''offline'' \<and> offline_mode_available eng then generate_offline_response eng w prompt st
      else if online_mode_available eng then generate_online_response eng w prompt st
      else if offline_mode_available eng then generate_offline_response eng w prompt st
      else (generate_fallback_response prompt, st))"

subsection \<open>The five operations\<close>

text \<open>
  Each operation looks the persona up, builds its prompt, formatting its operands, and
  hands it to the router. A result \<open>Inl e\<close> is an exception that leaves the operation.
\<close>

definition explain_code :: "engine \<Rightarrow> world \<Rightarrow> jval \<Rightarrow> jval \<Rightarrow> jval \<Rightarrow> sys_state \<Rightarrow> (exn + string) \<times> sys_state" where
  "explain_code eng w code persona mode st =
     (case explain_persona persona of
        Inl e \<Rightarrow> (Inl e, st)
      | Inr pc \<Rightarrow> (let (text, st1) = generate_response eng w (explain_prompt pc (py_str w code)) mode st
                  in (Inr text, st1)))"

definition translate_code :: "engine \<Rightarrow> world \<Rightarrow> jval \<Rightarrow> jval \<Rightarrow> jval \<Rightarrow> jval \<Rightarrow> sys_state \<Rightarrow> (exn + string) \<times> sys_state" where
  "translate_code eng w code target_language persona mode st =
     (case translate_persona persona of
        Inl e \<Rightarrow> (Inl e, st)
      | Inr pc \<Rightarrow> (let (text, st1) = generate_response eng w
                         (translate_prompt pc (py_str w code) (py_str w target_language)) mode st
                  in (Inr text, st1)))"

definition optimize_code :: "engine \<Rightarrow> world \<Rightarrow> jval \<Rightarrow> jval \<Rightarrow> jval \<Rightarrow> sys_state \<Rightarrow> (exn + string) \<times> sys_state" where
  "optimize_code eng w code persona mode st =
     (case optimize_persona persona of
        Inl e \<Rightarrow> (Inl e, st)
      | Inr pc \<Rightarrow> (let (text, st1) = generate_response eng w (optimize_prompt pc (py_str w code)) mode st
                  in (Inr text, st1)))"

definition chat :: "engine \<Rightarrow> world \<Rightarrow> jval \<Rightarrow> jval \<Rightarrow> jval \<Rightarrow> sys_state \<Rightarrow> (exn + string) \<times> sys_state" where
  "chat eng w message persona mode st =
     (case chat_persona persona of
        Inl e \<Rightarrow> (Inl e, st)
      | Inr pc \<Rightarrow> (let (text, st1) = generate_response eng w (chat_prompt pc (py_str w message)) mode st
                  in (Inr text, st1)))"

definition fix_error :: "engine \<Rightarrow> world \<Rightarrow> jval \<Rightarrow> jval \<Rightarrow> jval \<Rightarrow> jval \<Rightarrow> sys_state \<Rightarrow> (exn + string) \<times> sys_state" where
  "fix_error eng w code error_message persona mode st =
     (case fix_error_persona persona of
        Inl e \<Rightarrow> (Inl e, st)
      | Inr pc \<Rightarrow> (let (text, st1) = generate_response eng w
                         (fix_error_prompt pc (py_str w code) (py_str w error_message)) mode st
                  in (Inr text, st1)))"

section \<open>Requests and envelopes (api.py)\<close>

text \<open>
  An envelope is the dict that \<open>process_request\<close> or \<open>handle_message\<close> builds and
  the transport serialises: its keys in the order of the source, each with its value.
  A field is present when its key is.

  \<open>options.get\<close> is the one method called on a field of the request: on a dict it
  gives the value of the key or the default, on any other value it raises an
  \<open>AttributeError\<close>.
\<close>

definition options_get :: "jval \<Rightarrow> string \<Rightarrow> jval \<Rightarrow> exn + jval" where
  "options_get opts k dflt =
     (case opts of
        JDict d \<Rightarrow> Inr (dict_get d k dflt)
      | _ \<Rightarrow> Inl (AttributeError (type_name opts) ''get''))"

definition unknown_action :: "world \<Rightarrow> jval \<Rightarrow> string" where
  "unknown_action w action =
     ''Unknown action: '' @ py_str w action
       @ ''. Available actions: explain, translate, optimize, chat, fix_error''"

definition dispatch ::
  "engine \<Rightarrow> world \<Rightarrow> jval \<Rightarrow> jval \<Rightarrow> jval \<Rightarrow> jval \<Rightarrow> jval \<Rightarrow> sys_state
     \<Rightarrow> (exn + string) \<times> sys_state" where
  "dispatch eng w action content persona mode opts st =
     (if action = JStr ''explain'' then explain_code eng w content persona mode st
      else if action = JStr ''translate'' then
        (case options_get opts ''targetLanguage'' (JStr ''python'') of
           Inl e \<Rightarrow> (Inl e, st)
         | Inr target_language \<Rightarrow> translate_code eng w content target_language persona mode st)
      else if action = JStr ''optimize'' then optimize_code eng w content persona mode st
      else if action = JStr ''chat'' then chat eng w content persona mode st
      else if action = JStr ''fix_error'' then
        (case options_get opts ''error'' (JStr []) of
           Inl e \<Rightarrow> (Inl e, st)
         | Inr error_msg \<Rightarrow> fix_error eng w content error_msg persona mode st)
      else (Inr (unknown_action w action), st))"

text \<open>
  \<open>process_request\<close>: \<open>dispatch\<close> is the body of its \<open>try\<close> up to the assignment of
  \<open>response\<close>; the first envelope is the one it returns, the second the one of its
  handler.
\<close>

definition process_request ::
  "engine \<Rightarrow> world \<Rightarrow> jval \<Rightarrow> jval \<Rightarrow> jval \<Rightarrow> jval \<Rightarrow> jval \<Rightarrow> sys_state
     \<Rightarrow> envelope \<times> sys_state" where
  "process_request eng w action content persona mode opts st =
     (let (r, st1) = dispatch eng w action content persona mode opts st
      in case r of
           Inr response \<Rightarrow>
             ([(''success'', JBool True),
               (''response'', JStr response),
               (''action'', action),
               (''persona'', persona),
               (''mode'', mode),
               (''timestamp'', JStr (now_isoformat w))], st1)
         | Inl e \<Rightarrow>
             ([(''success'', JBool False),
               (''error'', JStr (str_of e)),
               (''action'', action),
               (''timestamp'', JStr (now_isoformat w))], st1))"

text \<open>
  \<open>handle_message\<close>, from the outcome of \<open>json.loads\<close> on: the decoding raises
  \<open>JSONDecodeError\<close>, or raises another exception (a \<open>ValueError\<close> on an integer
  literal of too many digits, a \<open>RecursionError\<close> on deep nesting), or returns a
  value. On a value that is not a dict \<open>data.get\<close> raises. On a dict each field is
  the value of its key, \<open>null\<close> included, or the default of the source when the key
  is missing; the default of \<open>action\<close> is \<open>None\<close>.

  Each of the two handlers builds its \<open>error_response\<close> and sends it; an exception
  raised by that \<open>send\<close> leaves \<open>handle_message\<close>. When the \<open>send\<close> of the
  answer of \<open>process_request\<close> raises, the second handler runs. The result is the
  list of the envelopes handed to \<open>websocket.send\<close>, in order, and the exception that
  leaves \<open>handle_message\<close>, if any.
\<close>

datatype loads_outcome =
    JSONDecodeError string
  | LoadsRaised exn
  | Loaded jval

definition error_response :: "world \<Rightarrow> string \<Rightarrow> envelope" where
  "error_response w msg =
     [(''success'', JBool False),
      (''error'', JStr msg),
      (''timestamp'', JStr (now_isoformat w))]"

definition send_error_response :: "world \<Rightarrow> string \<Rightarrow> envelope list \<times> exn option" where
  "send_error_response w msg =
     (let r = error_response w msg in ([r], websocket_send w r))"

definition handle_message ::
  "engine \<Rightarrow> world \<Rightarrow> loads_outcome \<Rightarrow> sys_state \<Rightarrow> (envelope list \<times> exn option) \<times> sys_state" where
  "handle_message eng w loaded st =
     (case loaded of
        JSONDecodeError m \<Rightarrow> (send_error_response w ''Invalid JSON format'', st)
      | LoadsRaised e \<Rightarrow> (send_error_response w (str_of e), st)
      | Loaded data \<Rightarrow>
          (case data of
             JDict d \<Rightarrow>
               (let action = dict_get d ''action'' JNull;
                    content = dict_get d ''content'' (JStr []);
                    persona = dict_get d ''persona'' (JStr ''teacher'');
                    mode = dict_get d ''mode'' (JStr ''online'');
                    options = dict_get d ''options'' (JDict []);
                    (response, st1) = process_request eng w action content persona mode options st
                in case websocket_send w response of
                     None \<Rightarrow> (([response], None), st1)
                   | Some e \<Rightarrow>
                       (let (sent, raised) = send_error_response w (str_of e)
                        in ((response # sent, raised), st1)))
           | _ \<Rightarrow> (send_error_response w (str_of (AttributeError (type_name data) ''get'')), st)))"

text \<open>Reading an envelope: is a key present, and with which value.\<close>

definition field :: "envelope \<Rightarrow> string \<Rightarrow> jval option" where
  "field env k = map_of env k"

definition present :: "envelope \<Rightarrow> string \<Rightarrow> bool" where
  "present env k = (field env k \<noteq> None)"

section \<open>Notions used to state the properties\<close>

text \<open>The four canned guidance texts, and the five actions that \<open>process_request\<close> knows.\<close>

definition canned :: "string set" where
  "canned = {fallback_explain, fallback_translate, fallback_optimize, fallback_generic}"

definition recognized :: "string set" where
  "recognized = {''explain'', ''translate'', ''optimize'', ''chat'', ''fix_error''}"

text \<open>
  The prompt that \<open>process_request\<close> hands to the router for a recognised action, a
  persona that is a str and a dict of options \<open>d\<close>: the prompt of the operation that
  the action selects, with the persona that this operation looks up
  (\<open>dispatch_recognized\<close> below).
\<close>

definition composed_prompt :: "world \<Rightarrow> string \<Rightarrow> jval \<Rightarrow> string \<Rightarrow> (string \<times> jval) list \<Rightarrow> string" where
  "composed_prompt w action content persona d =
     (if action = ''explain'' then
        explain_prompt (dict_get personas persona teacher) (py_str w content)
      else if action = ''translate'' then
        translate_prompt (dict_get personas persona teacher) (py_str w content)
          (py_str w (dict_get d ''targetLanguage'' (JStr ''python'')))
      else if action = ''optimize'' then
        optimize_prompt (dict_get personas persona hacker) (py_str w content)
      else if action = ''chat'' then
        chat_prompt (dict_get personas persona teacher) (py_str w content)
      else fix_error_prompt (dict_get personas persona reviewer) (py_str w content)
             (py_str w (dict_get d ''error'' (JStr []))))"



text \<open>
  The cleaning of the local output in the words of the specification: a line is
  skipped when it is blank or starts with the first 50 characters of the prompt, and
  the answer is what begins at the first line that is not skipped.
\<close>

definition skipped :: "string \<Rightarrow> string \<Rightarrow> bool" where
  "skipped prompt line = (strip line = [] \<or> startswith line (take 50 prompt))"

definition spec_clean_response :: "string \<Rightarrow> string \<Rightarrow> string" where
  "spec_clean_response prompt raw = join_lines (dropWhile (skipped prompt) (split_lines raw))"

text \<open>
  The invariant of an envelope: \<open>response\<close> and no \<open>error\<close> when \<open>success\<close> is
  true, \<open>error\<close> and no \<open>response\<close> when it is false.
\<close>

definition envelope_ok :: "envelope \<Rightarrow> bool" where
  "envelope_ok env =
     ((field env ''success'' = Some (JBool True) \<and> present env ''response'' \<and> \<not> present env ''error'')
      \<or> (field env ''success'' = Some (JBool False) \<and> present env ''error'' \<and> \<not> present env ''response''))"

section \<open>Concrete engines, collaborators and states\<close>

text \<open>
  Engines with both backends, with the remote one only (both keys set), with the local
  one only; \<open>init_engine\<close> above has none. Three collaborators: in the first the
  OpenAI call raises, the Groq call would answer and llama.cpp answers after echoing
  the prompt; in the second llama.cpp exceeds its time; in the third the connection
  is closed, so that every \<open>send\<close> raises. No field of the requests below is a
  list or a dict that is formatted, so \<open>builtin_str\<close> is never asked. The state before a request has
  no file and an empty log.
\<close>

definition eng_both :: engine where
  "eng_both = \<lparr>online_mode_available = True, offline_mode_available = True,
     openai_api_key = Some ''sk-test'', groq_api_key = Some ''gsk-test'',
     llama_model_path = Some ''models/m.gguf'', llama_executable = Some ''llama''\<rparr>"

definition eng_remote :: engine where
  "eng_remote = \<lparr>online_mode_available = True, offline_mode_available = False,
     openai_api_key = Some ''sk-test'', groq_api_key = Some ''gsk-test'',
     llama_model_path = None, llama_executable = None\<rparr>"

definition eng_local :: engine where
  "eng_local = \<lparr>online_mode_available = False, offline_mode_available = True,
     openai_api_key = None, groq_api_key = None,
     llama_model_path = Some ''models/m.gguf'', llama_executable = Some ''llama''\<rparr>"

definition world_remote_down :: world where
  "world_remote_down = \<lparr>
     openai_completion = (\<lambda>key prompt. Raised (Exception ''Connection refused'')),
     groq_completion = (\<lambda>key prompt. Completion '' groq answer ''),
     named_temporary_file = Created ''/tmp/tmpq1.txt'',
     subprocess_run = (\<lambda>cmd. Completed 0 ''hi\<newline>\<newline>local answer\<newline>'' []),
     now_isoformat = ''2024-05-01T12:00:00'',
     websocket_send = (\<lambda>env. None),
     builtin_str = (\<lambda>v. [])\<rparr>"

definition world_local_timeout :: world where
  "world_local_timeout = \<lparr>
     openai_completion = (\<lambda>key prompt. Raised (Exception ''Connection refused'')),
     groq_completion = (\<lambda>key prompt. Completion '' groq answer ''),
     named_temporary_file = Created ''/tmp/tmpq1.txt'',
     subprocess_run = (\<lambda>cmd. TimeoutExpired),
     now_isoformat = ''2024-05-01T12:00:00'',
     websocket_send = (\<lambda>env. None),
     builtin_str = (\<lambda>v. [])\<rparr>"

definition world_closed :: world where
  "world_closed = \<lparr>
     openai_completion = (\<lambda>key prompt. Raised (Exception ''Connection refused'')),
     groq_completion = (\<lambda>key prompt. Completion '' groq answer ''),
     named_temporary_file = Created ''/tmp/tmpq1.txt'',
     subprocess_run = (\<lambda>cmd. TimeoutExpired),
     now_isoformat = ''2024-05-01T12:00:00'',
     websocket_send = (\<lambda>env. Some (ConnectionClosed ''no close frame received or sent'')),
     builtin_str = (\<lambda>v. [])\<rparr>"

definition st_empty :: sys_state where
  "st_empty = \<lparr>files = Map.empty, calls = []\<rparr>"

section \<open>Auxiliary facts\<close>

subsection \<open>Texts\<close>

lemma canned_not_Nil: "t \<in> canned \<Longrightarrow> t \<noteq> []"
  by (auto simp: canned_def fallback_explain_def fallback_translate_def
      fallback_optimize_def fallback_generic_def)

lemma fallback_canned: "generate_fallback_response prompt \<in> canned"
  by (simp add: generate_fallback_response_def canned_def)


subsection \<open>Lines, and trimming\<close>

lemma answer_line_skipped: "answer_line p l = (\<not> skipped p l)"
  by (simp add: answer_line_def skipped_def)

lemma find_response_start_enumerate:
  "find_response_start p (enumerate n ls) d =
     (if \<exists>l \<in> set ls. answer_line p l then n + length (takeWhile (\<lambda>l. \<not> answer_line p l) ls) else d)"
  by (induction ls arbitrary: n) auto

lemma split_lines_not_Nil: "split_lines s \<noteq> []"
  by (induction s) (auto split: list.splits)

lemma join_lines_Cons_Cons: "join_lines ((c # l) # ls) = c # join_lines (l # ls)"
  by (cases ls) auto

lemma join_split_lines: "join_lines (split_lines s) = s"
proof (induction s)
  case Nil
  show ?case by simp
next
  case (Cons c cs)
  obtain l ls where sp: "split_lines cs = l # ls"
    using split_lines_not_Nil [of cs] by (cases "split_lines cs") auto
  show ?case
    using Cons sp by (simp add: join_lines_Cons_Cons)
qed

lemma dropWhile_hd: "xs \<noteq> [] \<Longrightarrow> \<not> P (hd xs) \<Longrightarrow> dropWhile P xs = xs"
  by (cases xs) auto

lemma dropWhile_head: "dropWhile P xs = [] \<or> \<not> P (hd (dropWhile P xs))"
  by (induction xs) auto

lemma trim_right_keeps_head:
  assumes "t \<noteq> []" and "\<not> P (hd t)"
  shows "rev (dropWhile P (rev t)) \<noteq> [] \<and> hd (rev (dropWhile P (rev t))) = hd t"
proof -
  obtain x t' where t: "t = x # t'" using assms(1) by (cases t) auto
  with assms(2) have nx: "\<not> P x" by simp
  have "dropWhile P (rev t' @ [x]) = dropWhile P (rev t') @ [x]"
    using nx by (simp add: dropWhile_append)
  then show ?thesis using t by simp
qed

lemma strip_idem: "strip (strip s) = strip s"
proof -
  let ?t = "dropWhile is_space s"
  let ?u = "rev (dropWhile is_space (rev ?t))"
  have u: "dropWhile is_space ?u = ?u"
  proof (cases "?t = []")
    case True
    show ?thesis unfolding True by simp
  next
    case False
    then have "\<not> is_space (hd ?t)" using dropWhile_head [of is_space s] by blast
    with False have "?u \<noteq> [] \<and> hd ?u = hd ?t" by (rule trim_right_keeps_head)
    with \<open>\<not> is_space (hd ?t)\<close> show ?thesis by (simp add: dropWhile_hd)
  qed
  have "strip (strip s) = rev (dropWhile is_space (rev (dropWhile is_space ?u)))"
    by (simp add: strip_def)
  also have "\<dots> = rev (dropWhile is_space (rev ?u))" by (simp only: u)
  also have "\<dots> = ?u" by simp
  finally show ?thesis by (simp add: strip_def)
qed

subsection \<open>The concrete engines are engines that initialize produces\<close>

lemma initialize_engines:
  "initialize (Some ''sk-test'') (Some ''gsk-test'') (Some ''models/m.gguf'') (Some ''llama'')
     init_engine = (True, eng_both)"
  "initialize (Some ''sk-test'') (Some ''gsk-test'') None None init_engine = (True, eng_remote)"
  "initialize None None (Some ''models/m.gguf'') (Some ''llama'') init_engine = (True, eng_local)"
  "initialize None None None None init_engine = (False, init_engine)"
  by (simp_all add: initialize_def setup_offline_mode_def init_engine_def truthy_def
      eng_both_def eng_remote_def eng_local_def)

subsection \<open>Calls and files of the backends\<close>

lemma remote_attempt_openai_first:
  assumes "openai_api_key eng = Some k" and "k \<noteq> []"
  shows "remote_attempt eng w prompt st = call_openai_api w k prompt st"
    and "openai_completion w k prompt \<noteq> ImportError \<Longrightarrow>
           calls (snd (remote_attempt eng w prompt st)) = calls st @ [OpenAICall k prompt]"
  using assms
  by (auto simp: remote_attempt_def truthy_def call_openai_api_def log_call_def
      split: api_outcome.splits)

lemma remote_attempt_groq_second:
  assumes "\<not> truthy (openai_api_key eng)" and "groq_api_key eng = Some k" and "k \<noteq> []"
  shows "remote_attempt eng w prompt st = call_groq_api w k prompt st"
    and "groq_completion w k prompt \<noteq> ImportError \<Longrightarrow>
           calls (snd (remote_attempt eng w prompt st)) = calls st @ [GroqCall k prompt]"
  using assms
  by (auto simp: remote_attempt_def truthy_def call_groq_api_def log_call_def
      split: api_outcome.splits)

lemma offline_runs_llama:
  assumes "named_temporary_file w = Created prompt_file"
    and "llama_executable eng = Some executable" and "llama_model_path eng = Some model"
  shows "calls (snd (generate_offline_response eng w prompt st))
           = calls st @ [LlamaRun (llama_cmd executable model prompt_file)]"
  using assms
  by (simp add: generate_offline_response_def Let_def log_call_def split: process_outcome.splits)

lemma offline_success_text:
  assumes "named_temporary_file w = Created prompt_file"
    and "llama_executable eng = Some executable" and "llama_model_path eng = Some model"
    and "subprocess_run w (llama_cmd executable model prompt_file) = Completed 0 out err"
  shows "fst (generate_offline_response eng w prompt st) = clean_response prompt out"
  using assms by (simp add: generate_offline_response_def Let_def)



lemma offline_timeout_keeps_file:
  assumes "named_temporary_file w = Created prompt_file"
    and "llama_executable eng = Some executable" and "llama_model_path eng = Some model"
    and "subprocess_run w (llama_cmd executable model prompt_file) = TimeoutExpired"
  shows "fst (generate_offline_response eng w prompt st) = request_timed_out
       \<and> files (snd (generate_offline_response eng w prompt st)) prompt_file = Some prompt"
  using assms by (simp add: generate_offline_response_def Let_def log_call_def)

lemma offline_completed_deletes_file:
  assumes "named_temporary_file w = Created prompt_file"
    and "llama_executable eng = Some executable" and "llama_model_path eng = Some model"
    and "subprocess_run w (llama_cmd executable model prompt_file) = Completed rc out err"
  shows "files (snd (generate_offline_response eng w prompt st)) prompt_file = None"
  using assms by (simp add: generate_offline_response_def Let_def log_call_def)

subsection \<open>Persona lookups and dispatch\<close>

lemma explain_persona_eq: "explain_persona (JStr p) = Inr (dict_get personas p teacher)"
  by (simp add: explain_persona_def persona_lookup_def dict_index_def personas_def)

lemma translate_persona_eq: "translate_persona (JStr p) = Inr (dict_get personas p teacher)"
  by (simp add: translate_persona_def persona_lookup_def dict_index_def personas_def)

lemma optimize_persona_eq: "optimize_persona (JStr p) = Inr (dict_get personas p hacker)"
  by (simp add: optimize_persona_def persona_lookup_def dict_index_def personas_def)

lemma chat_persona_eq: "chat_persona (JStr p) = Inr (dict_get personas p teacher)"
  by (simp add: chat_persona_def persona_lookup_def dict_index_def personas_def)

lemma fix_error_persona_eq: "fix_error_persona (JStr p) = Inr (dict_get personas p reviewer)"
  by (simp add: fix_error_persona_def persona_lookup_def dict_index_def personas_def)

lemma unknown_persona_get:
  "p \<notin> {''teacher'', ''hacker'', ''reviewer''} \<Longrightarrow> dict_get personas p d = d"
  by (simp add: dict_get_def personas_def)

lemma dispatch_recognized:
  assumes "action \<in> recognized"
  shows "dispatch eng w (JStr action) content (JStr persona) mode (JDict d) st =
           (Inr (fst (generate_response eng w (composed_prompt w action content persona d) mode st)),
            snd (generate_response eng w (composed_prompt w action content persona d) mode st))"
proof -
  have "action = ''explain'' \<or> action = ''translate'' \<or> action = ''optimize''
          \<or> action = ''chat'' \<or> action = ''fix_error''"
    using assms by (simp only: recognized_def insert_iff empty_iff simp_thms)
  then show ?thesis
  proof (elim disjE)
    assume "action = ''explain''"
    then show ?thesis
      by (simp add: dispatch_def explain_code_def explain_persona_eq composed_prompt_def
          split_beta)
  next
    assume "action = ''translate''"
    then show ?thesis
      by (simp add: dispatch_def translate_code_def translate_persona_eq composed_prompt_def
          options_get_def split_beta)
  next
    assume "action = ''optimize''"
    then show ?thesis
      by (simp add: dispatch_def optimize_code_def optimize_persona_eq composed_prompt_def
          split_beta)
  next
    assume "action = ''chat''"
    then show ?thesis
      by (simp add: dispatch_def chat_def chat_persona_eq composed_prompt_def split_beta)
  next
    assume "action = ''fix_error''"
    then show ?thesis
      by (simp add: dispatch_def fix_error_def fix_error_persona_eq composed_prompt_def
          options_get_def split_beta)
  qed
qed

lemma process_request_cases:
  "(\<exists>response st1. process_request eng w action content persona mode opts st =
        ([(''success'', JBool True), (''response'', JStr response), (''action'', action),
          (''persona'', persona), (''mode'', mode),
          (''timestamp'', JStr (now_isoformat w))], st1))
   \<or> (\<exists>e st1. process_request eng w action content persona mode opts st =
        ([(''success'', JBool False), (''error'', JStr (str_of e)), (''action'', action),
          (''timestamp'', JStr (now_isoformat w))], st1))"
proof (cases "dispatch eng w action content persona mode opts st")
  case (Pair r st1)
  then show ?thesis
    by (cases r) (auto simp: process_request_def)
qed

lemma process_request_envelope_ok:
  "envelope_ok (fst (process_request eng w action content persona mode opts st))"
  using process_request_cases [of eng w action content persona mode opts st]
  by (auto simp: envelope_ok_def field_def present_def)

lemma error_response_ok: "envelope_ok (error_response w msg)"
  by (simp add: error_response_def envelope_ok_def field_def present_def)

lemma send_error_response_ok:
  "env \<in> set (fst (send_error_response w msg)) \<Longrightarrow> envelope_ok env"
  by (simp add: send_error_response_def Let_def error_response_ok)

section \<open>The claims\<close>

subsection \<open>C1: mode resolution\<close>



subsection \<open>C2: failure of the remote attempt\<close>




subsection \<open>C3: no backend configured\<close>

text \<open>
  Claim C3. With neither backend configured, every request with one of the five
  actions (a persona that is a str and a dict of options, as a request has; any
  content and any mode) is answered with \<open>success\<close> true and a response that is not
  empty: the canned text chosen on the lower-cased prompt, \<open>explain\<close> before
  \<open>translate\<close> before \<open>optimize\<close> before the generic text. Nothing is called and
  no file is written.
\<close>

theorem zero_backends_canned:
  assumes "\<not> online_mode_available eng" and "\<not> offline_mode_available eng"
    and "action \<in> recognized"
  shows "process_request eng w (JStr action) content (JStr persona) mode (JDict d) st =
           ([(''success'', JBool True),
             (''response'', JStr (generate_fallback_response (composed_prompt w action content persona d))),
             (''action'', JStr action),
             (''persona'', JStr persona),
             (''mode'', mode),
             (''timestamp'', JStr (now_isoformat w))], st)
       \<and> generate_fallback_response (composed_prompt w action content persona d) \<noteq> []
       \<and> generate_fallback_response (composed_prompt w action content persona d) =
           (let prompt = composed_prompt w action content persona d
            in if py_in ''explain'' (lower prompt) then fallback_explain
               else if py_in ''translate'' (lower prompt) then fallback_translate
               else if py_in ''optimize'' (lower prompt) then fallback_optimize
               else fallback_generic)"
proof -
  let ?p = "composed_prompt w action content persona d"
  have gen: "generate_response eng w ?p mode st = (generate_fallback_response ?p, st)"
    using assms(1,2) by (simp add: generate_response_def)
  have "dispatch eng w (JStr action) content (JStr persona) mode (JDict d) st =
          (Inr (generate_fallback_response ?p), st)"
    using dispatch_recognized [OF assms(3), of eng w content persona mode d st]
    by (simp only: gen fst_conv snd_conv)
  then have env: "process_request eng w (JStr action) content (JStr persona) mode (JDict d) st =
           ([(''success'', JBool True),
             (''response'', JStr (generate_fallback_response ?p)),
             (''action'', JStr action),
             (''persona'', JStr persona),
             (''mode'', mode),
             (''timestamp'', JStr (now_isoformat w))], st)"
    by (simp add: process_request_def)
  have ne: "generate_fallback_response ?p \<noteq> []"
    using fallback_canned canned_not_Nil by blast
  have chain: "generate_fallback_response ?p =
           (let prompt = ?p
            in if py_in ''explain'' (lower prompt) then fallback_explain
               else if py_in ''translate'' (lower prompt) then fallback_translate
               else if py_in ''optimize'' (lower prompt) then fallback_optimize
               else fallback_generic)"
    by (simp only: generate_fallback_response_def Let_def)
  from env ne chain show ?thesis by blast
qed

text \<open>
  An \<open>explain\<close> request gets the text keyed by \<open>explain\<close>. A \<open>chat\<close> request in
  the hacker persona whose message names \<open>optimize\<close> and, in capitals, \<open>TRANSLATE\<close>
  gets the text keyed by \<open>translate\<close>: the match ignores case, and \<open>translate\<close>
  comes before \<open>optimize\<close>.
\<close>

theorem zero_backends_canned_witness:
  "process_request init_engine world_remote_down (JStr ''explain'') (JStr ''x = 1'')
       (JStr ''teacher'') (JStr ''online'') (JDict []) st_empty =
     ([(''success'', JBool True),
       (''response'', JStr fallback_explain),
       (''action'', JStr ''explain''),
       (''persona'', JStr ''teacher''),
       (''mode'', JStr ''online''),
       (''timestamp'', JStr ''2024-05-01T12:00:00'')], st_empty)
   \<and> fallback_explain \<noteq> []
   \<and> process_request init_engine world_remote_down (JStr ''chat'')
       (JStr ''optimize, then TRANSLATE'') (JStr ''hacker'') (JStr ''offline'') (JDict []) st_empty =
     ([(''success'', JBool True),
       (''response'', JStr fallback_translate),
       (''action'', JStr ''chat''),
       (''persona'', JStr ''hacker''),
       (''mode'', JStr ''offline''),
       (''timestamp'', JStr ''2024-05-01T12:00:00'')], st_empty)"
proof -
  have off: "\<not> online_mode_available init_engine" "\<not> offline_mode_available init_engine"
    by (simp_all add: init_engine_def)
  have r1: "''explain'' \<in> recognized" and r2: "''chat'' \<in> recognized"
    by (simp_all add: recognized_def)
  have f1: "generate_fallback_response
              (composed_prompt world_remote_down ''explain'' (JStr ''x = 1'') ''teacher'' [])
              = fallback_explain"
    by code_simp
  have f2: "generate_fallback_response
              (composed_prompt world_remote_down ''chat'' (JStr ''optimize, then TRANSLATE'')
                 ''hacker'' [])
              = fallback_translate"
    by code_simp
  have ts: "now_isoformat world_remote_down = ''2024-05-01T12:00:00''"
    by (simp add: world_remote_down_def)
  show ?thesis
    using zero_backends_canned [OF off r1, of world_remote_down "JStr ''x = 1''" "''teacher''"
        "JStr ''online''" "[]" st_empty]
      zero_backends_canned [OF off r2, of world_remote_down "JStr ''optimize, then TRANSLATE''"
        "''hacker''" "JStr ''offline''" "[]" st_empty]
    by (simp only: f1 f2 ts) blast
qed

subsection \<open>C4: unknown action\<close>

text \<open>
  Claim C4. For every action outside the five, whatever the engine, the
  collaborators, the content, the persona, the mode and the options, the request is
  answered with \<open>success\<close> true and the text that names the action and lists the
  valid ones; the envelope has no \<open>error\<close>; the state is the one before the request,
  so no backend was called and no file written.
\<close>

theorem unknown_action_answer:
  assumes "action \<notin> recognized"
  shows "process_request eng w (JStr action) content persona mode opts st =
           ([(''success'', JBool True),
             (''response'', JStr (''Unknown action: '' @ action
                 @ ''. Available actions: explain, translate, optimize, chat, fix_error'')),
             (''action'', JStr action),
             (''persona'', persona),
             (''mode'', mode),
             (''timestamp'', JStr (now_isoformat w))], st)"
  using assms
  by (simp add: process_request_def dispatch_def recognized_def unknown_action_def py_str_def)

theorem unknown_action_answer_witness:
  "''refactor'' \<notin> recognized
   \<and> process_request eng_both world_remote_down (JStr ''refactor'') (JStr ''x = 1'')
        (JStr ''teacher'') (JStr ''online'') JNull st_empty =
       ([(''success'', JBool True),
         (''response'', JStr ''Unknown action: refactor. Available actions: explain, translate, optimize, chat, fix_error''),
         (''action'', JStr ''refactor''),
         (''persona'', JStr ''teacher''),
         (''mode'', JStr ''online''),
         (''timestamp'', JStr ''2024-05-01T12:00:00'')], st_empty)"
proof -
  have n: "''refactor'' \<notin> recognized"
    by (simp add: recognized_def)
  show ?thesis
    using n unknown_action_answer [OF n, of eng_both world_remote_down "JStr ''x = 1''"
        "JStr ''teacher''" "JStr ''online''" JNull st_empty]
    by (simp add: world_remote_down_def)
qed

subsection \<open>C5: the scratch file of the local backend\<close>

text \<open>
  Claim C5 does not hold of the code. \<open>os.unlink(prompt_file)\<close> is the statement
  after the run of the process, with no \<open>finally\<close>: when the process exceeds its
  60 seconds, control goes to the handler of \<open>TimeoutExpired\<close> and the file stays.
  Here a \<open>chat\<close> request in mode \<open>offline\<close>, with the local backend configured and
  the process timing out, is answered with \<open>success\<close> true and the timeout text, and
  the file that was empty before the request holds the prompt after it.
\<close>

theorem scratch_file_survives_timeout:
  "files st_empty ''/tmp/tmpq1.txt'' = None
   \<and> field (fst (process_request eng_local world_local_timeout (JStr ''chat'') (JStr ''hi'')
        (JStr ''teacher'') (JStr ''offline'') (JDict []) st_empty)) ''success'' = Some (JBool True)
   \<and> field (fst (process_request eng_local world_local_timeout (JStr ''chat'') (JStr ''hi'')
        (JStr ''teacher'') (JStr ''offline'') (JDict []) st_empty)) ''response''
       = Some (JStr ''Sorry, the request timed out. Please try again with a shorter prompt.'')
   \<and> files (snd (process_request eng_local world_local_timeout (JStr ''chat'') (JStr ''hi'')
        (JStr ''teacher'') (JStr ''offline'') (JDict []) st_empty)) ''/tmp/tmpq1.txt''
       = Some (chat_prompt teacher ''hi'')"
proof -
  let ?p = "chat_prompt teacher ''hi''"
  have t: "fst (generate_offline_response eng_local world_local_timeout ?p st_empty)
             = request_timed_out
         \<and> files (snd (generate_offline_response eng_local world_local_timeout ?p st_empty))
             ''/tmp/tmpq1.txt'' = Some ?p"
    by (rule offline_timeout_keeps_file [where executable = "''llama''" and model = "''models/m.gguf''"])
       (simp_all add: eng_local_def world_local_timeout_def)
  have pc: "dict_get personas ''teacher'' teacher = teacher"
    by (simp add: dict_get_def personas_def)
  have d: "dispatch eng_local world_local_timeout (JStr ''chat'') (JStr ''hi'') (JStr ''teacher'')
             (JStr ''offline'') (JDict []) st_empty
           = (Inr (fst (generate_offline_response eng_local world_local_timeout ?p st_empty)),
              snd (generate_offline_response eng_local world_local_timeout ?p st_empty))"
    by (simp add: dispatch_def chat_def chat_persona_eq pc generate_response_def eng_local_def
        py_str_def split_beta)
  have e: "files st_empty ''/tmp/tmpq1.txt'' = None"
    by (simp add: st_empty_def)
  show ?thesis
    using t e by (simp add: process_request_def d field_def request_timed_out_def)
qed

subsection \<open>C6: unknown persona\<close>

text \<open>
  Claim C6, as amended. For every persona id other than \<open>teacher\<close>, \<open>hacker\<close> and
  \<open>reviewer\<close> the lookup of each operation returns a profile and raises nothing; the
  profile is the default written in the operation: \<open>teacher\<close> for explain,
  translate and chat, \<open>hacker\<close> for optimize, \<open>reviewer\<close> for fix\_error.
\<close>

theorem persona_defaults_amended:
  assumes "persona \<notin> {''teacher'', ''hacker'', ''reviewer''}"
  shows "explain_persona (JStr persona) = Inr teacher
       \<and> translate_persona (JStr persona) = Inr teacher
       \<and> optimize_persona (JStr persona) = Inr hacker
       \<and> chat_persona (JStr persona) = Inr teacher
       \<and> fix_error_persona (JStr persona) = Inr reviewer"
  using assms
  by (simp add: explain_persona_eq translate_persona_eq optimize_persona_eq chat_persona_eq
      fix_error_persona_eq unknown_persona_get)

theorem persona_defaults_amended_witness:
  "''pirate'' \<notin> {''teacher'', ''hacker'', ''reviewer''}
   \<and> explain_persona (JStr ''pirate'') = Inr teacher
   \<and> translate_persona (JStr ''pirate'') = Inr teacher
   \<and> optimize_persona (JStr ''pirate'') = Inr hacker
   \<and> chat_persona (JStr ''pirate'') = Inr teacher
   \<and> fix_error_persona (JStr ''pirate'') = Inr reviewer"
proof -
  have n: "''pirate'' \<notin> {''teacher'', ''hacker'', ''reviewer''}"
    by simp
  from n persona_defaults_amended [OF n] show ?thesis by blast
qed

text \<open>
  Claim C6 as stated fails for two of the five operations: an unknown persona gets
  the hacker profile in \<open>optimize_code\<close> and the reviewer profile in \<open>fix_error\<close>,
  and neither is the teacher profile.
\<close>

theorem persona_defaults_counterexample:
  "''pirate'' \<notin> {''teacher'', ''hacker'', ''reviewer''}
   \<and> optimize_persona (JStr ''pirate'') = Inr hacker
   \<and> optimize_persona (JStr ''pirate'') \<noteq> Inr teacher
   \<and> fix_error_persona (JStr ''pirate'') = Inr reviewer
   \<and> fix_error_persona (JStr ''pirate'') \<noteq> Inr teacher"
proof -
  have h: "style hacker \<noteq> style teacher" and r: "style reviewer \<noteq> style teacher"
    by (simp_all add: hacker_def reviewer_def teacher_def)
  then have "hacker \<noteq> teacher" and "reviewer \<noteq> teacher"
    by auto
  moreover have "dict_get personas ''pirate'' hacker = hacker"
    and "dict_get personas ''pirate'' reviewer = reviewer"
    by (simp_all add: dict_get_def personas_def)
  ultimately show ?thesis
    by (simp add: optimize_persona_eq fix_error_persona_eq)
qed

subsection \<open>C7: echo of the request\<close>

text \<open>
  Claim C7, as amended. Every envelope that \<open>process_request\<close> returns carries the
  action of the request. The success envelope also carries its persona and its mode,
  unchanged; the failure envelope has neither a \<open>persona\<close> nor a \<open>mode\<close> field.
\<close>

theorem echo_fields_amended:
  "let env = fst (process_request eng w action content persona mode opts st)
   in field env ''action'' = Some action
      \<and> (field env ''success'' = Some (JBool True) \<longrightarrow>
           field env ''persona'' = Some persona \<and> field env ''mode'' = Some mode)
      \<and> (field env ''success'' = Some (JBool False) \<longrightarrow>
           \<not> present env ''persona'' \<and> \<not> present env ''mode'')"
  using process_request_cases [of eng w action content persona mode opts st]
  by (auto simp: field_def present_def Let_def)

text \<open>
  A request answered with success, and one answered with failure: a \<open>translate\<close>
  request whose \<open>options\<close> is JSON \<open>null\<close>, on which \<open>options.get\<close> raises.
\<close>

theorem echo_fields_amended_witness:
  "field (fst (process_request init_engine world_remote_down (JStr ''refactor'') (JStr ''x = 1'')
        (JStr ''hacker'') (JStr ''offline'') (JDict []) st_empty)) ''success'' = Some (JBool True)
   \<and> field (fst (process_request init_engine world_remote_down (JStr ''refactor'') (JStr ''x = 1'')
        (JStr ''hacker'') (JStr ''offline'') (JDict []) st_empty)) ''action'' = Some (JStr ''refactor'')
   \<and> field (fst (process_request init_engine world_remote_down (JStr ''refactor'') (JStr ''x = 1'')
        (JStr ''hacker'') (JStr ''offline'') (JDict []) st_empty)) ''persona'' = Some (JStr ''hacker'')
   \<and> field (fst (process_request init_engine world_remote_down (JStr ''refactor'') (JStr ''x = 1'')
        (JStr ''hacker'') (JStr ''offline'') (JDict []) st_empty)) ''mode'' = Some (JStr ''offline'')
   \<and> field (fst (process_request init_engine world_remote_down (JStr ''translate'') (JStr ''x = 1'')
        (JStr ''hacker'') (JStr ''offline'') JNull st_empty)) ''success'' = Some (JBool False)
   \<and> field (fst (process_request init_engine world_remote_down (JStr ''translate'') (JStr ''x = 1'')
        (JStr ''hacker'') (JStr ''offline'') JNull st_empty)) ''action'' = Some (JStr ''translate'')
   \<and> \<not> present (fst (process_request init_engine world_remote_down (JStr ''translate'') (JStr ''x = 1'')
        (JStr ''hacker'') (JStr ''offline'') JNull st_empty)) ''persona''
   \<and> \<not> present (fst (process_request init_engine world_remote_down (JStr ''translate'') (JStr ''x = 1'')
        (JStr ''hacker'') (JStr ''offline'') JNull st_empty)) ''mode''"
proof -
  have s1: "field (fst (process_request init_engine world_remote_down (JStr ''refactor'') (JStr ''x = 1'')
        (JStr ''hacker'') (JStr ''offline'') (JDict []) st_empty)) ''success'' = Some (JBool True)"
    by (simp add: process_request_def dispatch_def field_def)
  have s2: "field (fst (process_request init_engine world_remote_down (JStr ''translate'') (JStr ''x = 1'')
        (JStr ''hacker'') (JStr ''offline'') JNull st_empty)) ''success'' = Some (JBool False)"
    by (simp add: process_request_def dispatch_def options_get_def field_def)
  show ?thesis
    using s1 s2
      echo_fields_amended [of init_engine world_remote_down "JStr ''refactor''" "JStr ''x = 1''"
        "JStr ''hacker''" "JStr ''offline''" "JDict []" st_empty]
      echo_fields_amended [of init_engine world_remote_down "JStr ''translate''" "JStr ''x = 1''"
        "JStr ''hacker''" "JStr ''offline''" JNull st_empty]
    by (simp add: Let_def)
qed

text \<open>
  Claim C7 as stated fails on the failure envelope: for the \<open>translate\<close> request
  with \<open>options\<close> null, persona \<open>hacker\<close> and mode \<open>offline\<close>, the envelope is the
  one below, whose \<open>persona\<close> and \<open>mode\<close> fields are absent, not equal to those of
  the request.
\<close>

theorem echo_fields_counterexample:
  "fst (process_request init_engine world_remote_down (JStr ''translate'') (JStr ''x = 1'')
        (JStr ''hacker'') (JStr ''offline'') JNull st_empty)
     = [(''success'', JBool False),
        (''error'', JStr (str_of (AttributeError ''NoneType'' ''get''))),
        (''action'', JStr ''translate''),
        (''timestamp'', JStr ''2024-05-01T12:00:00'')]
   \<and> field (fst (process_request init_engine world_remote_down (JStr ''translate'') (JStr ''x = 1'')
        (JStr ''hacker'') (JStr ''offline'') JNull st_empty)) ''persona''
       \<noteq> Some (JStr ''hacker'')
   \<and> field (fst (process_request init_engine world_remote_down (JStr ''translate'') (JStr ''x = 1'')
        (JStr ''hacker'') (JStr ''offline'') JNull st_empty)) ''mode''
       \<noteq> Some (JStr ''offline'')"
  by (simp add: process_request_def dispatch_def options_get_def field_def
      world_remote_down_def)

subsection \<open>C8: cleaning of the local output\<close>

text \<open>
  Claim C8, as amended. For every prompt and every output of a local run that
  returned 0: the output is trimmed and split into lines. If some line is neither
  blank nor starts with the first 50 characters of the prompt, the lines before the
  first such line are dropped and all lines from it on are kept; if there is no such
  line, no line is dropped and the answer is the whole trimmed output. What is kept is
  joined and trimmed, and replaced by an apology when it is empty.
\<close>

theorem cleaning_amended:
  "clean_response prompt raw =
     (let ls = split_lines (strip raw);
          kept = (if \<exists>l \<in> set ls. \<not> skipped prompt l then dropWhile (skipped prompt) ls else ls);
          text = strip (join_lines kept)
      in if text = [] then no_proper_response else text)
   \<and> ((\<forall>l \<in> set (split_lines (strip raw)). skipped prompt l) \<longrightarrow>
        clean_response prompt raw = (if strip raw = [] then no_proper_response else strip raw))"
proof -
  let ?ls = "split_lines (strip raw)"
  have start: "drop (find_response_start prompt (enumerate 0 ?ls) 0) ?ls =
          (if \<exists>l \<in> set ?ls. \<not> skipped prompt l then dropWhile (skipped prompt) ?ls else ?ls)"
    by (simp add: find_response_start_enumerate answer_line_skipped dropWhile_eq_drop)
  have first: "clean_response prompt raw =
     (let ls = ?ls;
          kept = (if \<exists>l \<in> set ls. \<not> skipped prompt l then dropWhile (skipped prompt) ls else ls);
          text = strip (join_lines kept)
      in if text = [] then no_proper_response else text)"
    unfolding clean_response_def Let_def start by simp
  have "clean_response prompt raw = (if strip raw = [] then no_proper_response else strip raw)"
    if "\<forall>l \<in> set ?ls. skipped prompt l"
    using that first by (simp add: Let_def join_split_lines strip_idem)
  with first show ?thesis by blast
qed

text \<open>
  An output that echoes the prompt, then a blank line, then an indented answer whose
  second line starts like the prompt: the echo and the blank line go, the answer
  stays with its second line. And an output that is only the echo: it stays whole.
\<close>

theorem cleaning_amended_witness:
  "split_lines (strip ''hi there\<newline>\<newline>  answer\<newline>hi again '')
     = [''hi there'', [], ''  answer'', ''hi again'']
   \<and> skipped ''hi'' ''hi there'' \<and> skipped ''hi'' []
   \<and> \<not> skipped ''hi'' ''  answer'' \<and> skipped ''hi'' ''hi again''
   \<and> clean_response ''hi'' ''hi there\<newline>\<newline>  answer\<newline>hi again '' = ''answer\<newline>hi again''
   \<and> split_lines (strip ''hi there'') = [''hi there'']
   \<and> clean_response ''hi'' ''hi there'' = ''hi there''"
proof -
  let ?r1 = "''hi there\<newline>\<newline>  answer\<newline>hi again ''"
  have l1: "split_lines (strip ?r1) = [''hi there'', [], ''  answer'', ''hi again'']"
    by code_simp
  have k: "skipped ''hi'' ''hi there''" "skipped ''hi'' []" "\<not> skipped ''hi'' ''  answer''"
    "skipped ''hi'' ''hi again''"
    by code_simp+
  have "clean_response ''hi'' ?r1 =
     (let ls = split_lines (strip ?r1);
          kept = (if \<exists>l \<in> set ls. \<not> skipped ''hi'' l then dropWhile (skipped ''hi'') ls else ls);
          text = strip (join_lines kept)
      in if text = [] then no_proper_response else text)"
    using cleaning_amended [of "''hi''" ?r1] by (rule conjunct1)
  also have "\<dots> = ''answer\<newline>hi again''"
    by code_simp
  finally have c1: "clean_response ''hi'' ?r1 = ''answer\<newline>hi again''" .
  have l2: "split_lines (strip ''hi there'') = [''hi there'']"
    by code_simp
  have all2: "\<forall>l \<in> set (split_lines (strip ''hi there'')). skipped ''hi'' l"
    using k(1) by (simp add: l2)
  have "clean_response ''hi'' ''hi there''
          = (if strip ''hi there'' = [] then no_proper_response else strip ''hi there'')"
    using cleaning_amended [of "''hi''" "''hi there''"] all2 by blast
  also have "\<dots> = ''hi there''"
    by code_simp
  finally have c2: "clean_response ''hi'' ''hi there'' = ''hi there''" .
  from l1 k c1 l2 c2 show ?thesis by blast
qed

text \<open>
  Claim C8 as stated fails when every line is one to skip. For the prompt \<open>hi\<close> and
  the output \<open>hi there\<close>, the only line starts with the first 50 characters of the
  prompt: skipping it, as the claim says, leaves nothing, while the code returns the
  line.
\<close>

theorem cleaning_counterexample:
  "skipped ''hi'' ''hi there''
   \<and> spec_clean_response ''hi'' ''hi there'' = []
   \<and> clean_response ''hi'' ''hi there'' = ''hi there''
   \<and> clean_response ''hi'' ''hi there'' \<noteq> spec_clean_response ''hi'' ''hi there''"
proof -
  have a: "skipped ''hi'' ''hi there''" by code_simp
  have b: "spec_clean_response ''hi'' ''hi there'' = []" by code_simp
  have c: "clean_response ''hi'' ''hi there'' = ''hi there''" by code_simp
  from a b c show ?thesis by simp
qed

subsection \<open>C9: the envelope invariant\<close>

text \<open>
  Claim C9. Every envelope that \<open>process_request\<close> returns, whatever the values of
  the request, and every envelope that \<open>handle_message\<close> hands to \<open>websocket.send\<close>,
  whatever \<open>json.loads\<close> did with the message and whether or not a \<open>send\<close> raises,
  has \<open>response\<close> and no \<open>error\<close> when \<open>success\<close> is true, and \<open>error\<close> and no
  \<open>response\<close> when \<open>success\<close> is false.
\<close>

theorem envelope_invariant:
  "envelope_ok (fst (process_request eng w action content persona mode opts st))
   \<and> (\<forall>env \<in> set (fst (fst (handle_message eng w loaded st))). envelope_ok env)"
proof -
  have "envelope_ok env" if "env \<in> set (fst (fst (handle_message eng w loaded st)))" for env
  proof (cases loaded)
    case (JSONDecodeError m)
    with that show ?thesis
      by (simp add: handle_message_def send_error_response_ok)
  next
    case (LoadsRaised e)
    with that show ?thesis
      by (simp add: handle_message_def send_error_response_ok)
  next
    case (Loaded data)
    show ?thesis
    proof (cases "\<exists>d. data = JDict d")
      case False
      then have "fst (fst (handle_message eng w loaded st))
                   = fst (send_error_response w (str_of (AttributeError (type_name data) ''get'')))"
        using Loaded by (cases data) (simp_all add: handle_message_def)
      with that show ?thesis
        by (simp add: send_error_response_ok)
    next
      case True
      then obtain d where d: "data = JDict d" by blast
      let ?r = "process_request eng w (dict_get d ''action'' JNull) (dict_get d ''content'' (JStr []))
                  (dict_get d ''persona'' (JStr ''teacher'')) (dict_get d ''mode'' (JStr ''online''))
                  (dict_get d ''options'' (JDict [])) st"
      have ok: "envelope_ok (fst ?r)"
        by (rule process_request_envelope_ok)
      show ?thesis
      proof (cases "websocket_send w (fst ?r)")
        case None
        then have "fst (fst (handle_message eng w loaded st)) = [fst ?r]"
          using Loaded d by (simp add: handle_message_def Let_def split_beta)
        with that ok show ?thesis by simp
      next
        case (Some e)
        then have "fst (fst (handle_message eng w loaded st))
                     = fst ?r # fst (send_error_response w (str_of e))"
          using Loaded d by (simp add: handle_message_def Let_def split_beta)
        with that ok show ?thesis
          by (auto simp: send_error_response_ok)
      qed
    qed
  qed
  then show ?thesis
    using process_request_envelope_ok by blast
qed

text \<open>
  Four messages. One that is not JSON. One on which \<open>json.loads\<close> raises a
  \<open>ValueError\<close>. The message \<open>{"action": "chat", "content": "hi", "persona": null}\<close>
  with no backend: the answer is a success that carries the persona \<open>null\<close> and the
  default mode. The message \<open>{"action": "translate", "options": null}\<close> on a closed
  connection: the failure envelope of \<open>process_request\<close>, then, its \<open>send\<close> having
  raised, the envelope of the second handler, whose \<open>send\<close> raises in turn.
\<close>

theorem envelope_invariant_witness:
  "fst (handle_message init_engine world_remote_down (JSONDecodeError ''Expecting value'') st_empty)
     = ([[(''success'', JBool False),
          (''error'', JStr ''Invalid JSON format''),
          (''timestamp'', JStr ''2024-05-01T12:00:00'')]], None)
   \<and> envelope_ok [(''success'', JBool False),
          (''error'', JStr ''Invalid JSON format''),
          (''timestamp'', JStr ''2024-05-01T12:00:00'')]
   \<and> fst (handle_message init_engine world_remote_down
        (LoadsRaised (ValueError ''Exceeds the limit (4300 digits) for integer string conversion''))
        st_empty)
     = ([[(''success'', JBool False),
          (''error'', JStr ''Exceeds the limit (4300 digits) for integer string conversion''),
          (''timestamp'', JStr ''2024-05-01T12:00:00'')]], None)
   \<and> envelope_ok [(''success'', JBool False),
          (''error'', JStr ''Exceeds the limit (4300 digits) for integer string conversion''),
          (''timestamp'', JStr ''2024-05-01T12:00:00'')]
   \<and> fst (handle_message init_engine world_remote_down
        (Loaded (JDict [(''action'', JStr ''chat''), (''content'', JStr ''hi''), (''persona'', JNull)]))
        st_empty)
     = ([[(''success'', JBool True),
          (''response'', JStr fallback_explain),
          (''action'', JStr ''chat''),
          (''persona'', JNull),
          (''mode'', JStr ''online''),
          (''timestamp'', JStr ''2024-05-01T12:00:00'')]], None)
   \<and> envelope_ok [(''success'', JBool True),
          (''response'', JStr fallback_explain),
          (''action'', JStr ''chat''),
          (''persona'', JNull),
          (''mode'', JStr ''online''),
          (''timestamp'', JStr ''2024-05-01T12:00:00'')]
   \<and> fst (handle_message init_engine world_closed
        (Loaded (JDict [(''action'', JStr ''translate''), (''options'', JNull)])) st_empty)
     = ([[(''success'', JBool False),
          (''error'', JStr (str_of (AttributeError ''NoneType'' ''get''))),
          (''action'', JStr ''translate''),
          (''timestamp'', JStr ''2024-05-01T12:00:00'')],
         [(''success'', JBool False),
          (''error'', JStr ''no close frame received or sent''),
          (''timestamp'', JStr ''2024-05-01T12:00:00'')]],
        Some (ConnectionClosed ''no close frame received or sent''))
   \<and> envelope_ok [(''success'', JBool False),
          (''error'', JStr (str_of (AttributeError ''NoneType'' ''get''))),
          (''action'', JStr ''translate''),
          (''timestamp'', JStr ''2024-05-01T12:00:00'')]
   \<and> envelope_ok [(''success'', JBool False),
          (''error'', JStr ''no close frame received or sent''),
          (''timestamp'', JStr ''2024-05-01T12:00:00'')]"
proof -
  let ?m3 = "Loaded (JDict [(''action'', JStr ''chat''), (''content'', JStr ''hi''), (''persona'', JNull)])"
  let ?m4 = "Loaded (JDict [(''action'', JStr ''translate''), (''options'', JNull)])"
  have h1: "fst (handle_message init_engine world_remote_down (JSONDecodeError ''Expecting value'') st_empty)
     = ([[(''success'', JBool False),
          (''error'', JStr ''Invalid JSON format''),
          (''timestamp'', JStr ''2024-05-01T12:00:00'')]], None)"
    by (simp add: handle_message_def send_error_response_def error_response_def
        world_remote_down_def)
  have h2: "fst (handle_message init_engine world_remote_down
        (LoadsRaised (ValueError ''Exceeds the limit (4300 digits) for integer string conversion''))
        st_empty)
     = ([[(''success'', JBool False),
          (''error'', JStr ''Exceeds the limit (4300 digits) for integer string conversion''),
          (''timestamp'', JStr ''2024-05-01T12:00:00'')]], None)"
    by (simp add: handle_message_def send_error_response_def error_response_def
        world_remote_down_def)
  have h3: "fst (handle_message init_engine world_remote_down ?m3 st_empty)
     = ([[(''success'', JBool True),
          (''response'', JStr fallback_explain),
          (''action'', JStr ''chat''),
          (''persona'', JNull),
          (''mode'', JStr ''online''),
          (''timestamp'', JStr ''2024-05-01T12:00:00'')]], None)"
    by code_simp
  have h4: "fst (handle_message init_engine world_closed ?m4 st_empty)
     = ([[(''success'', JBool False),
          (''error'', JStr (str_of (AttributeError ''NoneType'' ''get''))),
          (''action'', JStr ''translate''),
          (''timestamp'', JStr ''2024-05-01T12:00:00'')],
         [(''success'', JBool False),
          (''error'', JStr ''no close frame received or sent''),
          (''timestamp'', JStr ''2024-05-01T12:00:00'')]],
        Some (ConnectionClosed ''no close frame received or sent''))"
    by code_simp
  have i1: "\<forall>env \<in> set (fst (fst (handle_message init_engine world_remote_down
              (JSONDecodeError ''Expecting value'') st_empty))). envelope_ok env"
    using envelope_invariant [of init_engine world_remote_down JNull JNull JNull JNull JNull st_empty
        "JSONDecodeError ''Expecting value''"] by (rule conjunct2)
  have i2: "\<forall>env \<in> set (fst (fst (handle_message init_engine world_remote_down
              (LoadsRaised (ValueError ''Exceeds the limit (4300 digits) for integer string conversion''))
              st_empty))). envelope_ok env"
    using envelope_invariant [of init_engine world_remote_down JNull JNull JNull JNull JNull st_empty
        "LoadsRaised (ValueError ''Exceeds the limit (4300 digits) for integer string conversion'')"]
    by (rule conjunct2)
  have i3: "\<forall>env \<in> set (fst (fst (handle_message init_engine world_remote_down ?m3 st_empty))).
              envelope_ok env"
    using envelope_invariant [of init_engine world_remote_down JNull JNull JNull JNull JNull st_empty ?m3]
    by (rule conjunct2)
  have i4: "\<forall>env \<in> set (fst (fst (handle_message init_engine world_closed ?m4 st_empty))).
              envelope_ok env"
    using envelope_invariant [of init_engine world_closed JNull JNull JNull JNull JNull st_empty ?m4]
    by (rule conjunct2)
  from i1 have o1: "envelope_ok [(''success'', JBool False),
          (''error'', JStr ''Invalid JSON format''),
          (''timestamp'', JStr ''2024-05-01T12:00:00'')]"
    unfolding h1 by simp
  from i2 have o2: "envelope_ok [(''success'', JBool False),
          (''error'', JStr ''Exceeds the limit (4300 digits) for integer string conversion''),
          (''timestamp'', JStr ''2024-05-01T12:00:00'')]"
    unfolding h2 by simp
  from i3 have o3: "envelope_ok [(''success'', JBool True),
          (''response'', JStr fallback_explain),
          (''action'', JStr ''chat''),
          (''persona'', JNull),
          (''mode'', JStr ''online''),
          (''timestamp'', JStr ''2024-05-01T12:00:00'')]"
    unfolding h3 by simp
  from i4 have o4: "envelope_ok [(''success'', JBool False),
          (''error'', JStr (str_of (AttributeError ''NoneType'' ''get''))),
          (''action'', JStr ''translate''),
          (''timestamp'', JStr ''2024-05-01T12:00:00'')]
     \<and> envelope_ok [(''success'', JBool False),
          (''error'', JStr ''no close frame received or sent''),
          (''timestamp'', JStr ''2024-05-01T12:00:00'')]"
    unfolding h4 by simp
  from h1 h2 h3 h4 o1 o2 o3 o4 show ?thesis by blast
qed

subsection \<open>C10: a mode that is neither online nor offline\<close>



end
